theory Spec2Isabelle
  imports Main
begin

section \<open>The OMIKB strategy of pybacktrip: data model\<close>

text \<open>
  The source is \<^verbatim>\<open>src/pybacktrip/backends/omikb.py\<close>, the class \<^verbatim>\<open>OmikbStrategy\<close>.
  Python strings are modelled as \<^typ>\<open>string\<close>, exceptions as values of the type
  \<open>error\<close> on the left of a sum, and dictionaries as association lists read with
  \<^const>\<open>map_of\<close> (a Python dictionary keeps its insertion order, which
  \<^verbatim>\<open>format_query\<close> iterates over).
\<close>

type_synonym entrydict = "(string \<times> string) list"

text \<open>
  The exceptions the modelled code can raise: a failed dictionary subscript, the
  \<^verbatim>\<open>ValueError\<close> of \<^verbatim>\<open>__convert_json_entrydict\<close> (its message embeds the entry),
  an attribute looked up on \<^verbatim>\<open>None\<close>, and any other subclass of \<^verbatim>\<open>Exception\<close>
  raised by the service client or the file system.
\<close>

datatype error =
    KeyError string
  | ValueError entrydict
  | AttributeError string
  | OtherException string

text \<open>
  A value in a triple slot or in a decoded row is a plain \<^verbatim>\<open>str\<close> or a
  \<^verbatim>\<open>tripper.Literal\<close>. The class \<^verbatim>\<open>Literal\<close> is not part of this repository; it is a
  subclass of \<^verbatim>\<open>str\<close> whose text is the literal's value and which carries an optional
  language tag and an optional datatype. \<^verbatim>\<open>None\<close> in a slot is \<^const>\<open>None\<close>.
\<close>

datatype val =
    Str string
  | Literal string "string option" "string option"

fun str_of :: "val \<Rightarrow> string" where
  "str_of (Str s) = s"
| "str_of (Literal v lang datatype) = v"

fun isinstance_Literal :: "val \<Rightarrow> bool" where
  "isinstance_Literal (Str s) = False"
| "isinstance_Literal (Literal v lang datatype) = True"

type_synonym triple = "val option \<times> val option \<times> val option"

type_synonym namespaces = "(string \<times> string) list"

subsection \<open>String helpers of Python\<close>

definition startswith :: "string \<Rightarrow> string \<Rightarrow> bool" where
  "startswith s p = (take (length p) s = p)"

fun join :: "string \<Rightarrow> string list \<Rightarrow> string" where
  "join sep [] = []"
| "join sep [x] = x"
| "join sep (x # y # ys) = x @ sep @ join sep (y # ys)"

text \<open>The items of a triple in order, as \<^verbatim>\<open>zip("spo", triple)\<close> pairs them.\<close>

fun slots :: "'a \<times> 'a \<times> 'a \<Rightarrow> 'a list" where
  "slots (sub, pred, obj) = [sub, pred, obj]"

subsection \<open>Class constants and the namespace registry\<close>

definition GRAPH :: string where
  "GRAPH = ''graph://main''"

definition DEFAULT_NAMESPACES :: namespaces where
  "DEFAULT_NAMESPACES =
     [(''owl'', ''http://www.w3.org/2002/07/owl#''),
      (''rdf'', ''http://www.w3.org/1999/02/22-rdf-syntax-ns#''),
      (''rdfs'', ''http://www.w3.org/2000/01/rdf-schema#''),
      (''schema'', ''http://schema.org/'')]"

text \<open>\<^verbatim>\<open>d[k] = v\<close>: an existing key keeps its place, a new key goes last.\<close>

fun dict_set :: "string \<Rightarrow> string \<Rightarrow> namespaces \<Rightarrow> namespaces" where
  "dict_set k v [] = [(k, v)]"
| "dict_set k v ((k', v') # rest) =
     (if k' = k then (k, v) # rest else (k', v') # dict_set k v rest)"

text \<open>\<^verbatim>\<open>del d[k]\<close> for a key that is present.\<close>

fun dict_del :: "string \<Rightarrow> namespaces \<Rightarrow> namespaces" where
  "dict_del k [] = []"
| "dict_del k ((k', v') # rest) =
     (if k' = k then rest else (k', v') # dict_del k rest)"

definition init :: "string \<Rightarrow> namespaces" where
  "init base_iri = dict_set '''' base_iri DEFAULT_NAMESPACES"

definition bind :: "string \<Rightarrow> string \<Rightarrow> namespaces \<Rightarrow> namespaces" where
  "bind prefix namespace ns =
     (if namespace \<noteq> '''' then dict_set prefix namespace ns
      else if map_of ns prefix \<noteq> None then dict_del prefix ns
      else ns)"

subsection \<open>\<^verbatim>\<open>format_query\<close>\<close>

text \<open>
  \<^verbatim>\<open>for prefix, namespace in self.__namespaces.items():
      query = f"PREFIX {prefix}: <{namespace}> {query}"\<close>
\<close>

fun format_query :: "namespaces \<Rightarrow> string \<Rightarrow> string" where
  "format_query [] query = query"
| "format_query ((prefix, namespace) # rest) query =
     format_query rest (''PREFIX '' @ prefix @ '': <'' @ namespace @ ''> '' @ query)"

subsection \<open>\<^verbatim>\<open>__convert_json_entrydict\<close>\<close>

definition convert_json_entrydict :: "namespaces \<Rightarrow> entrydict \<Rightarrow> error + val" where
  "convert_json_entrydict ns entrydict =
     (case map_of entrydict ''type'' of
        None \<Rightarrow> Inl (KeyError ''type'')
      | Some ty \<Rightarrow>
          if ty = ''uri'' then
            (case map_of entrydict ''value'' of
               None \<Rightarrow> Inl (KeyError ''value'')
             | Some v \<Rightarrow>
                 if startswith v '':'' then
                   (case map_of ns '''' of
                      None \<Rightarrow> Inl (KeyError '''')
                    | Some base \<Rightarrow> Inr (Str (''<'' @ base @ drop 1 v @ ''>'')))
                 else Inr (Str v))
          else if ty = ''literal'' then
            (case map_of entrydict ''value'' of
               None \<Rightarrow> Inl (KeyError ''value'')
             | Some v \<Rightarrow>
                 Inr (Literal v (map_of entrydict ''xml:lang'') (map_of entrydict ''datatype'')))
          else if ty = ''bnode'' then
            (case map_of entrydict ''value'' of
               None \<Rightarrow> Inl (KeyError ''value'')
             | Some v \<Rightarrow> Inr (Str (if startswith v ''_:'' then v else ''_:'' @ v)))
          else Inl (ValueError entrydict))"

subsection \<open>\<^verbatim>\<open>triples\<close>: compiling the match query and decoding a row\<close>

text \<open>
  \<^verbatim>\<open>variables = [f"?{tripleName}" for tripleName, tripleValue in zip("spo", triple)
               if tripleValue is None]
  if not variables: variables.append("*")\<close>
\<close>

definition variables :: "triple \<Rightarrow> string list" where
  "variables triple =
     (let vs = [[CHR ''?'', tripleName].
                  (tripleName, tripleValue) \<leftarrow> zip ''spo'' (slots triple), tripleValue = None]
      in if vs = [] then vs @ [''*''] else vs)"

text \<open>
  One item of the generator that \<^verbatim>\<open>whereSpec\<close> joins. The subscript
  \<^verbatim>\<open>self.__namespaces[""]\<close> raises \<^verbatim>\<open>KeyError\<close> when the empty prefix was unbound.
\<close>

fun whereSpec_item :: "namespaces \<Rightarrow> char \<times> val option \<Rightarrow> error + string" where
  "whereSpec_item ns (tripleName, None) = Inr [CHR ''?'', tripleName]"
| "whereSpec_item ns (tripleName, Some tripleValue) =
     (if startswith (str_of tripleValue) ''<'' then Inr (str_of tripleValue)
      else if startswith (str_of tripleValue) '':'' then
        (case map_of ns '''' of
           None \<Rightarrow> Inl (KeyError '''')
         | Some base \<Rightarrow> Inr (''<'' @ base @ drop 1 (str_of tripleValue) @ ''>''))
      else Inr (''<'' @ str_of tripleValue @ ''>''))"

text \<open>Running a generator to its end: the first exception raised ends it.\<close>

fun sequence :: "('e + 'a) list \<Rightarrow> 'e + 'a list" where
  "sequence [] = Inr []"
| "sequence (x # xs) =
     (case x of
        Inl e \<Rightarrow> Inl e
      | Inr a \<Rightarrow> (case sequence xs of Inl e \<Rightarrow> Inl e | Inr as \<Rightarrow> Inr (a # as)))"

definition whereSpec :: "namespaces \<Rightarrow> triple \<Rightarrow> error + string" where
  "whereSpec ns triple =
     (case sequence (map (whereSpec_item ns) (zip ''spo'' (slots triple))) of
        Inl e \<Rightarrow> Inl e
      | Inr items \<Rightarrow> Inr (join '' '' items))"

text \<open>
  The local \<^verbatim>\<open>query\<close> of \<^verbatim>\<open>triples\<close>: a triple-quoted f-string, so it begins with a
  newline, each of its three lines is indented by twelve blanks, and it ends with a
  newline and eight blanks.
\<close>

definition triples_query :: "namespaces \<Rightarrow> triple \<Rightarrow> error + string" where
  "triples_query ns triple =
     (let vs = variables triple in
      case whereSpec ns triple of
        Inl e \<Rightarrow> Inl e
      | Inr w \<Rightarrow>
          Inr (''\<newline>            SELECT '' @ join '' '' vs @
               ''\<newline>            FROM <'' @ GRAPH @ ''>'' @
               ''\<newline>            WHERE {'' @ w @ ''}'' @
               ''\<newline>        ''))"

text \<open>
  The tuple yielded for one binding row:
  \<^verbatim>\<open>tuple(self.__convert_json_entrydict(binding[name]) if name in binding else value
        for name, value in zip("spo", triple))\<close>
\<close>

type_synonym binding = "(string \<times> entrydict) list"

fun triples_item :: "namespaces \<Rightarrow> binding \<Rightarrow> char \<times> val option \<Rightarrow> error + val option" where
  "triples_item ns binding (name, value) =
     (case map_of binding [name] of
        Some entrydict \<Rightarrow>
          (case convert_json_entrydict ns entrydict of
             Inl e \<Rightarrow> Inl e
           | Inr v \<Rightarrow> Inr (Some v))
      | None \<Rightarrow> Inr value)"

fun triples_row :: "namespaces \<Rightarrow> triple \<Rightarrow> binding \<Rightarrow> error + triple" where
  "triples_row ns (sub, pred, obj) binding =
     (case triples_item ns binding (CHR ''s'', sub) of
        Inl e \<Rightarrow> Inl e
      | Inr a \<Rightarrow>
          (case triples_item ns binding (CHR ''p'', pred) of
             Inl e \<Rightarrow> Inl e
           | Inr b \<Rightarrow>
               (case triples_item ns binding (CHR ''o'', obj) of
                  Inl e \<Rightarrow> Inl e
                | Inr c \<Rightarrow> Inr (a, b, c))))"

subsection \<open>\<^verbatim>\<open>add_triples\<close> and \<^verbatim>\<open>remove\<close>: compiling the updates\<close>

text \<open>
  The method \<^verbatim>\<open>n3\<close> of \<^verbatim>\<open>tripper.Literal\<close> is outside this repository and is a
  parameter. A slot holding \<^verbatim>\<open>None\<close> has no \<^verbatim>\<open>startswith\<close>.
\<close>

fun add_triples_value :: "(val \<Rightarrow> string) \<Rightarrow> namespaces \<Rightarrow> val option \<Rightarrow> error + string" where
  "add_triples_value n3 ns None = Inl (AttributeError ''startswith'')"
| "add_triples_value n3 ns (Some v) =
     (if isinstance_Literal v then Inr (n3 v)
      else if startswith (str_of v) ''<'' \<or> startswith (str_of v) [CHR 0x22] then Inr (str_of v)
      else
        (case (map_of ns '''', startswith (str_of v) '':'') of
           (Some base, True) \<Rightarrow> Inr (''<'' @ base @ drop 1 (str_of v) @ ''>'')
         | _ \<Rightarrow>
             if startswith (str_of v) '':'' then Inr (str_of v)
             else Inr (''<'' @ str_of v @ ''>'')))"

definition add_triples_triple :: "(val \<Rightarrow> string) \<Rightarrow> namespaces \<Rightarrow> triple \<Rightarrow> error + string" where
  "add_triples_triple n3 ns triple =
     (case sequence (map (add_triples_value n3 ns) (slots triple)) of
        Inl e \<Rightarrow> Inl e
      | Inr items \<Rightarrow> Inr (join '' '' items @ '' .''))"

definition add_triples_cmd :: "(val \<Rightarrow> string) \<Rightarrow> namespaces \<Rightarrow> triple list \<Rightarrow> error + string" where
  "add_triples_cmd n3 ns triples =
     (case sequence (map (add_triples_triple n3 ns) triples) of
        Inl e \<Rightarrow> Inl e
      | Inr lines \<Rightarrow>
          Inr (''INSERT DATA { GRAPH <'' @ GRAPH @ ''> { '' @ join '' '' lines @ '' } }''))"

definition add_triples ::
  "(string \<Rightarrow> error + 'r) \<Rightarrow> (val \<Rightarrow> string) \<Rightarrow> namespaces \<Rightarrow> triple list \<Rightarrow> error + 'r" where
  "add_triples kb_update n3 ns triples =
     (case add_triples_cmd n3 ns triples of
        Inl e \<Rightarrow> Inl e
      | Inr cmd \<Rightarrow> kb_update cmd)"

fun remove_item :: "(val \<Rightarrow> string) \<Rightarrow> namespaces \<Rightarrow> char \<times> val option \<Rightarrow> error + string" where
  "remove_item n3 ns (name, None) = Inr [CHR ''?'', name]"
| "remove_item n3 ns (name, Some v) =
     (if isinstance_Literal v then Inr (n3 v)
      else if startswith (str_of v) ''<'' \<or> startswith (str_of v) [CHR 0x22] then Inr (str_of v)
      else if startswith (str_of v) '':'' then
        (case map_of ns '''' of
           None \<Rightarrow> Inl (KeyError '''')
         | Some base \<Rightarrow> Inr (''<'' @ base @ drop 1 (str_of v) @ ''>''))
      else Inr (''<'' @ str_of v @ ''>''))"

definition remove_cmd :: "(val \<Rightarrow> string) \<Rightarrow> namespaces \<Rightarrow> triple \<Rightarrow> error + string" where
  "remove_cmd n3 ns triple =
     (case sequence (map (remove_item n3 ns) (zip ''spo'' (slots triple))) of
        Inl e \<Rightarrow> Inl e
      | Inr items \<Rightarrow>
          Inr (''DELETE WHERE { GRAPH <'' @ GRAPH @ ''> { '' @ join '' '' items @ '' } }''))"

definition remove ::
  "(string \<Rightarrow> error + 'r) \<Rightarrow> (val \<Rightarrow> string) \<Rightarrow> namespaces \<Rightarrow> triple \<Rightarrow> error + 'r" where
  "remove kb_update n3 ns triple =
     (case remove_cmd n3 ns triple of
        Inl e \<Rightarrow> Inl e
      | Inr cmd \<Rightarrow> kb_update cmd)"

subsection \<open>The service client\<close>

text \<open>
  \<^verbatim>\<open>kb_toolbox\<close> is outside this repository. Its \<^verbatim>\<open>query\<close> is a parameter
  \<open>kb_query\<close> that either raises or returns a response with a status code, a text
  and a \<^verbatim>\<open>json()\<close> method, which in turn either raises or returns the parsed body. The
  body is taken to have the shape of SPARQL JSON results: a member that the code
  subscripts and that is absent is \<^const>\<open>None\<close>, and the subscript raises \<^verbatim>\<open>KeyError\<close>.
  Output written with \<^verbatim>\<open>print\<close> is not modelled.
\<close>

record head_json =
  vars :: "string list option"

record results_json =
  bindings :: "binding list option"

record sparql_json =
  head :: "head_json option"
  results :: "results_json option"

record response =
  status_code :: int
  response_text :: string
  json :: "error + sparql_json"

subsection \<open>\<^verbatim>\<open>query\<close>\<close>

text \<open>
  \<^verbatim>\<open>currentTriple = ()
  for var in queryVars:
      currentTriple = currentTriple + (self.__convert_json_entrydict(binding[var]),)\<close>
\<close>

fun query_row :: "namespaces \<Rightarrow> binding \<Rightarrow> string list \<Rightarrow> val list \<Rightarrow> error + val list" where
  "query_row ns binding [] currentTriple = Inr currentTriple"
| "query_row ns binding (var # queryVars) currentTriple =
     (case map_of binding var of
        None \<Rightarrow> Inl (KeyError var)
      | Some entrydict \<Rightarrow>
          (case convert_json_entrydict ns entrydict of
             Inl e \<Rightarrow> Inl e
           | Inr v \<Rightarrow> query_row ns binding queryVars (currentTriple @ [v])))"

fun query_rows ::
  "namespaces \<Rightarrow> string list \<Rightarrow> binding list \<Rightarrow> val list list \<Rightarrow> error + val list list" where
  "query_rows ns queryVars [] triplesRes = Inr triplesRes"
| "query_rows ns queryVars (binding # queryBindings) triplesRes =
     (case query_row ns binding queryVars [] of
        Inl e \<Rightarrow> Inl e
      | Inr currentTriple \<Rightarrow> query_rows ns queryVars queryBindings (triplesRes @ [currentTriple]))"

text \<open>The part of \<^verbatim>\<open>query\<close> after the \<^verbatim>\<open>try\<close> block; nothing catches what it raises.\<close>

definition query_decode :: "namespaces \<Rightarrow> sparql_json \<Rightarrow> error + val list list" where
  "query_decode ns res =
     (case head res of
        None \<Rightarrow> Inl (KeyError ''head'')
      | Some h \<Rightarrow>
          (case vars h of
             None \<Rightarrow> Inl (KeyError ''vars'')
           | Some queryVars \<Rightarrow>
               (case results res of
                  None \<Rightarrow> Inl (KeyError ''results'')
                | Some r \<Rightarrow>
                    (case bindings r of
                       None \<Rightarrow> Inl (KeyError ''bindings'')
                     | Some queryBindings \<Rightarrow> query_rows ns queryVars queryBindings []))))"

text \<open>
  The result is \<open>Inl e\<close> when \<^verbatim>\<open>query\<close> raises \<open>e\<close>, \<open>Inr None\<close> when it returns
  \<^verbatim>\<open>None\<close> and \<open>Inr (Some rows)\<close> when it returns the list of tuples.
\<close>

definition query ::
  "(string \<Rightarrow> error + response) \<Rightarrow> namespaces \<Rightarrow> string \<Rightarrow> error + val list list option" where
  "query kb_query ns query_object =
     (case kb_query (format_query ns query_object) of
        Inl e \<Rightarrow> Inr None
      | Inr response \<Rightarrow>
          if status_code response = 400 then Inr None
          else
            (case json response of
               Inl e \<Rightarrow> Inr None
             | Inr res \<Rightarrow>
                 (case query_decode ns res of
                    Inl e \<Rightarrow> Inl e
                  | Inr triplesRes \<Rightarrow> Inr (Some triplesRes))))"

subsection \<open>\<^verbatim>\<open>serialize\<close>\<close>

text \<open>
  The destination is a file name or a file object (\<^verbatim>\<open>Union[str, IO]\<close>); only the empty
  file name is falsy. Writing is an effect: \<^verbatim>\<open>serialize\<close> returns, next to its result,
  the list of writes it performed, each the destination and the content. Whether opening
  or writing a destination fails is decided by the environment, the parameter
  \<open>io_error\<close>.
\<close>

datatype destination =
    FileName string
  | FileObject nat

fun falsy :: "destination \<Rightarrow> bool" where
  "falsy (FileName name) = (name = '''')"
| "falsy (FileObject h) = False"

definition serialize_query :: "namespaces \<Rightarrow> string" where
  "serialize_query ns =
     format_query ns (''SELECT * WHERE { GRAPH <'' @ GRAPH @ ''> { ?s ?p ?o } }'')"

definition serialize ::
  "(string \<Rightarrow> error + response) \<Rightarrow> (destination \<Rightarrow> error option) \<Rightarrow> namespaces \<Rightarrow>
     destination \<Rightarrow> (error + string option) \<times> (destination \<times> string) list" where
  "serialize kb_query io_error ns destination =
     (case kb_query (serialize_query ns) of
        Inl e \<Rightarrow> (Inl e, [])
      | Inr response \<Rightarrow>
          if status_code response = 400 then (Inr None, [])
          else
            (let content = response_text response in
             if falsy destination then (Inr (Some content), [])
             else
               (case io_error destination of
                  Some e \<Rightarrow> (Inl e, [])
                | None \<Rightarrow> (Inr (Some ''''), [(destination, content)]))))"

subsection \<open>The specification's reading of \<^verbatim>\<open>addPrefixes\<close>\<close>

text \<open>
  One clause \<^verbatim>\<open>PREFIX p: <uri>\<close> of the text that \<^verbatim>\<open>format_query\<close> builds, with the
  blank that separates it from what follows.
\<close>

fun prefix_clause :: "string \<times> string \<Rightarrow> string" where
  "prefix_clause (prefix, namespace) = ''PREFIX '' @ prefix @ '': <'' @ namespace @ ''> ''"

text \<open>
  The specification's wording: one clause per registry entry, in the registry's
  iteration order, in front of the query text.
\<close>

definition addPrefixes_spec :: "namespaces \<Rightarrow> string \<Rightarrow> string" where
  "addPrefixes_spec ns q = concat (map prefix_clause ns) @ q"

section \<open>Properties\<close>

subsection \<open>Decoding a binding entry\<close>

text \<open>
  C1, as stated, fails: with the empty prefix bound to \<^verbatim>\<open>http://ex.org/\<close>, the entry of
  type \<^verbatim>\<open>uri\<close> and value \<^verbatim>\<open>:Foo\<close> is not decoded to the bare string
  \<^verbatim>\<open>http://ex.org/Foo\<close>.
\<close>

theorem convert_uri_shorthand_not_bare:
  "convert_json_entrydict (init ''http://ex.org/'') [(''type'', ''uri''), (''value'', '':Foo'')]
     \<noteq> Inr (Str ''http://ex.org/Foo'')"
  by (simp add: convert_json_entrydict_def startswith_def init_def DEFAULT_NAMESPACES_def)

text \<open>
  C1, amended: for an entry of type \<^verbatim>\<open>uri\<close>, a value with a leading colon is expanded
  against the namespace bound to the empty prefix and returned between angle brackets,
  \<^verbatim>\<open><\<close> namespace, the value without its colon, \<^verbatim>\<open>>\<close>; a value without a leading
  colon is returned as it is.
\<close>

theorem convert_uri:
  assumes "map_of entrydict ''type'' = Some ''uri''"
    and "map_of entrydict ''value'' = Some v"
  shows "(startswith v '':'' \<longrightarrow> map_of ns '''' = Some base \<longrightarrow>
            convert_json_entrydict ns entrydict = Inr (Str (''<'' @ base @ drop 1 v @ ''>''))) \<and>
         (\<not> startswith v '':'' \<longrightarrow> convert_json_entrydict ns entrydict = Inr (Str v))"
  using assms by (simp add: convert_json_entrydict_def)

theorem convert_uri_witness:
  "convert_json_entrydict (init ''http://ex.org/'') [(''type'', ''uri''), (''value'', '':Foo'')]
     = Inr (Str ''<http://ex.org/Foo>'') \<and>
   convert_json_entrydict (init ''http://ex.org/'')
       [(''type'', ''uri''), (''value'', ''http://ex.org/Bar'')]
     = Inr (Str ''http://ex.org/Bar'')"
  using convert_uri [of "[(''type'', ''uri''), (''value'', '':Foo'')]" "'':Foo''"
      "init ''http://ex.org/''" "''http://ex.org/''"]
    convert_uri [of "[(''type'', ''uri''), (''value'', ''http://ex.org/Bar'')]"
      "''http://ex.org/Bar''" "init ''http://ex.org/''" "''http://ex.org/''"]
  by (simp add: startswith_def init_def DEFAULT_NAMESPACES_def)

subsection \<open>Prefix declarations\<close>

text \<open>
  C4, as stated, fails: for the registry of a fresh adapter the text built by
  \<^verbatim>\<open>format_query\<close> is not the one with the clauses in the registry's iteration order.
\<close>

theorem format_query_not_registry_order:
  "format_query (init ''http://ex.org/'') ''ASK {}''
     \<noteq> addPrefixes_spec (init ''http://ex.org/'') ''ASK {}''"
  by (simp add: init_def DEFAULT_NAMESPACES_def addPrefixes_spec_def)

text \<open>
  C4, amended: \<^verbatim>\<open>format_query\<close> puts exactly one clause \<^verbatim>\<open>PREFIX p: <uri>\<close> per registry
  entry in front of the query text, and the clauses stand in the reverse of the registry's
  iteration order: the clause of the entry iterated last comes first.
\<close>

theorem format_query_reversed:
  "format_query ns q = addPrefixes_spec (rev ns) q"
  unfolding addPrefixes_spec_def
  by (induction ns q rule: format_query.induct) simp_all

subsection \<open>Compiled queries\<close>

text \<open>
  C2, as stated, fails: the text compiled for the pattern with only the predicate
  \<^verbatim>\<open><http://b>\<close> bound is not the one-line text of the claim.
\<close>

theorem triples_query_not_one_line:
  "triples_query (init ''http://ex.org/'') (None, Some (Str ''<http://b>''), None)
     \<noteq> Inr ''SELECT ?s ?o FROM <graph://main> WHERE {?s <http://b> ?o}''"
  by (simp add: triples_query_def whereSpec_def variables_def startswith_def GRAPH_def)

text \<open>
  C2, amended: the text compiled for that pattern holds the same three clauses, each on
  a line of its own: a newline, then \<^verbatim>\<open>SELECT ?s ?o\<close>, \<^verbatim>\<open>FROM <graph://main>\<close> and
  \<^verbatim>\<open>WHERE {?s <http://b> ?o}\<close>, each after twelve blanks and followed by a newline, then
  eight blanks.
\<close>

theorem triples_query_example:
  "triples_query ns (None, Some (Str ''<http://b>''), None) =
     Inr (''\<newline>            SELECT ?s ?o'' @
          ''\<newline>            FROM <graph://main>'' @
          ''\<newline>            WHERE {?s <http://b> ?o}'' @
          ''\<newline>        '')"
  by (simp add: triples_query_def whereSpec_def variables_def startswith_def GRAPH_def)

text \<open>
  C8: the update compiled for the single triple \<^verbatim>\<open><http://a> <http://b> "c"\<close> is exactly
  \<^verbatim>\<open>INSERT DATA { GRAPH <graph://main> { <http://a> <http://b> "c" . } }\<close>, and that is the
  text handed to the service, whatever the namespace registry holds.
\<close>

theorem add_triples_example:
  \<open>add_triples_cmd n3 ns [(Some (Str ''<http://a>''), Some (Str ''<http://b>''), Some (Str ''"c"''))]
     = Inr ''INSERT DATA { GRAPH <graph://main> { <http://a> <http://b> "c" . } }'' \<and>
   add_triples kb_update n3 ns
       [(Some (Str ''<http://a>''), Some (Str ''<http://b>''), Some (Str ''"c"''))]
     = kb_update ''INSERT DATA { GRAPH <graph://main> { <http://a> <http://b> "c" . } }''\<close>
  by (simp add: add_triples_def add_triples_cmd_def add_triples_triple_def startswith_def GRAPH_def)

text \<open>
  The classification of a bound slot by \<^verbatim>\<open>triples\<close>: a leading \<^verbatim>\<open><\<close> keeps the value,
  a leading colon expands it when the empty prefix is bound, and every other value, a
  quoted one included, goes between angle brackets.
\<close>

lemma whereSpec_item_bound:
  "whereSpec_item ns (name, Some (Str v)) =
     (if startswith v ''<'' then Inr v
      else if startswith v '':'' then
        (case map_of ns '''' of
           None \<Rightarrow> Inl (KeyError '''')
         | Some base \<Rightarrow> Inr (''<'' @ base @ drop 1 v @ ''>''))
      else Inr (''<'' @ v @ ''>''))"
  by (simp split: option.split)

text \<open>
  The sibling compilers \<^verbatim>\<open>add_triples\<close> and \<^verbatim>\<open>remove\<close> test for a leading double quote
  and keep a quoted value as it is.
\<close>

lemma siblings_keep_quoted:
  "startswith v [CHR 0x22] \<Longrightarrow>
     add_triples_value n3 ns (Some (Str v)) = Inr v \<and>
     remove_item n3 ns (name, Some (Str v)) = Inr v"
  by simp

text \<open>
  \<^verbatim>\<open>triples\<close> has no such test: every quoted value is put between angle brackets.
\<close>

lemma whereSpec_item_quoted:
  "startswith v [CHR 0x22] \<Longrightarrow> whereSpec_item ns (name, Some (Str v)) = Inr (''<'' @ v @ ''>'')"
  by (cases v) (auto simp: startswith_def)

text \<open>
  C3, evaluated on the code: the quoted literal \<^verbatim>\<open>"c"\<close> in the object slot is not placed
  into the \<^verbatim>\<open>WHERE\<close> clause unchanged; \<^verbatim>\<open>triples\<close> wraps it as \<^verbatim>\<open><"c">\<close>.
\<close>

theorem triples_wraps_quoted_literal:
  \<open>whereSpec ns (None, None, Some (Str ''"c"'')) = Inr ''?s ?p <"c">'' \<and>
   triples_query ns (None, None, Some (Str ''"c"'')) =
     Inr (''\<newline>            SELECT ?s ?p'' @
          ''\<newline>            FROM <graph://main>'' @
          ''\<newline>            WHERE {?s ?p <"c">}'' @
          ''\<newline>        '')\<close>
  by (simp add: triples_query_def whereSpec_def variables_def startswith_def GRAPH_def)

text \<open>
  C7: the projection of the match query holds one variable per unbound slot, named
  \<^verbatim>\<open>?s\<close>, \<^verbatim>\<open>?p\<close>, \<^verbatim>\<open>?o\<close> after the slot's position and in that order, and nothing else;
  with no unbound slot it is \<^verbatim>\<open>*\<close>. The \<^verbatim>\<open>SELECT\<close> line of the compiled text is these
  variables joined by blanks.
\<close>

theorem variables_projection:
  "(sub \<noteq> None \<and> pred \<noteq> None \<and> obj \<noteq> None \<longrightarrow>
      join '' '' (variables (sub, pred, obj)) = ''*'') \<and>
   (sub = None \<or> pred = None \<or> obj = None \<longrightarrow>
      variables (sub, pred, obj) =
        (if sub = None then [''?s''] else []) @
        (if pred = None then [''?p''] else []) @
        (if obj = None then [''?o''] else []) \<and>
      length (variables (sub, pred, obj)) = length (filter (\<lambda>v. v = None) [sub, pred, obj]) \<and>
      distinct (variables (sub, pred, obj))) \<and>
   (whereSpec ns (sub, pred, obj) = Inr w \<longrightarrow>
      triples_query ns (sub, pred, obj) =
        Inr (''\<newline>            SELECT '' @ join '' '' (variables (sub, pred, obj)) @
             ''\<newline>            FROM <graph://main>'' @
             ''\<newline>            WHERE {'' @ w @ ''}'' @
             ''\<newline>        ''))"
  by (cases sub; cases pred; cases obj) (simp_all add: variables_def triples_query_def GRAPH_def)

theorem variables_projection_witness:
  "join '' '' (variables (Some (Str ''<http://a>''), Some (Str ''<http://b>''), Some (Str ''<http://c>''))) = ''*'' \<and>
   variables (Some (Str ''<http://a>''), None, Some (Str ''<http://c>'')) = [''?p''] \<and>
   variables (None, Some (Str ''<http://b>''), None) = [''?s'', ''?o''] \<and>
   length (variables (None, None, None)) = 3 \<and>
   triples_query [] (Some (Str ''<http://a>''), None, Some (Str ''<http://c>'')) =
     Inr (''\<newline>            SELECT ?p'' @
          ''\<newline>            FROM <graph://main>'' @
          ''\<newline>            WHERE {<http://a> ?p <http://c>}'' @
          ''\<newline>        '')"
  using
    variables_projection [of "Some (Str ''<http://a>'')" "Some (Str ''<http://b>'')"
      "Some (Str ''<http://c>'')" "[]" "''''"]
    variables_projection [of "Some (Str ''<http://a>'')" None "Some (Str ''<http://c>'')" "[]"
      "''<http://a> ?p <http://c>''"]
    variables_projection [of None "Some (Str ''<http://b>'')" None "[]" "''''"]
    variables_projection [of None None None "[]" "''''"]
  by (simp add: whereSpec_def startswith_def)

subsection \<open>Decoding a row against the pattern\<close>

text \<open>
  C6: for a triple with no unbound slot, the row decoded against the empty binding is
  the triple itself.
\<close>

theorem triples_row_empty_binding:
  "sub \<noteq> None \<Longrightarrow> pred \<noteq> None \<Longrightarrow> obj \<noteq> None \<Longrightarrow>
     triples_row ns (sub, pred, obj) [] = Inr (sub, pred, obj)"
  by simp

theorem triples_row_empty_binding_witness:
  \<open>triples_row (init ''http://ex.org/'')
      (Some (Str ''<http://a>''), Some (Str '':knows''), Some (Literal ''c'' None None)) []
    = Inr (Some (Str ''<http://a>''), Some (Str '':knows''), Some (Literal ''c'' None None))\<close>
  using triples_row_empty_binding [of "Some (Str ''<http://a>'')" "Some (Str '':knows'')"
      "Some (Literal ''c'' None None)" "init ''http://ex.org/''"]
  by simp

subsection \<open>Decoding: errors\<close>

text \<open>
  \<^verbatim>\<open>__convert_json_entrydict\<close> raises \<^verbatim>\<open>ValueError\<close>, carrying the entry, exactly for an
  entry whose type is none of \<^verbatim>\<open>uri\<close>, \<^verbatim>\<open>literal\<close> and \<^verbatim>\<open>bnode\<close>.
\<close>

lemma convert_ValueError_iff:
  "convert_json_entrydict ns entrydict = Inl (ValueError d) \<longleftrightarrow>
     d = entrydict \<and>
     (\<exists>ty. map_of entrydict ''type'' = Some ty \<and>
           ty \<noteq> ''uri'' \<and> ty \<noteq> ''literal'' \<and> ty \<noteq> ''bnode'')"
  by (auto simp: convert_json_entrydict_def split: option.splits)

text \<open>
  A blank node is returned with a leading \<^verbatim>\<open>_:\<close>, kept when the value has it and added
  when it has not.
\<close>

lemma convert_bnode:
  "map_of entrydict ''type'' = Some ''bnode'' \<Longrightarrow> map_of entrydict ''value'' = Some v \<Longrightarrow>
     convert_json_entrydict ns entrydict =
       Inr (Str (if startswith v ''_:'' then v else ''_:'' @ v)) \<and>
     startswith (if startswith v ''_:'' then v else ''_:'' @ v) ''_:''"
  by (simp add: convert_json_entrydict_def startswith_def)

text \<open>
  With a value in the entry and the empty prefix bound, an entry of one of the three
  known types is decoded without an exception.
\<close>

lemma convert_known_type_returns:
  "map_of entrydict ''type'' = Some ty \<Longrightarrow> ty \<in> {''uri'', ''literal'', ''bnode''} \<Longrightarrow>
     map_of entrydict ''value'' = Some v \<Longrightarrow> map_of ns '''' = Some base \<Longrightarrow>
     \<exists>r. convert_json_entrydict ns entrydict = Inr r"
  by (auto simp: convert_json_entrydict_def)

text \<open>
  C9, evaluated on the code: after \<^verbatim>\<open>bind("", "")\<close> has removed the empty prefix, an
  entry of the known type \<^verbatim>\<open>uri\<close> with the value \<^verbatim>\<open>:Foo\<close> makes
  \<^verbatim>\<open>__convert_json_entrydict\<close> raise \<^verbatim>\<open>KeyError\<close>.
\<close>

theorem convert_uri_unbound_prefix_raises:
  "map_of (bind '''' '''' (init ''http://ex.org/'')) '''' = None \<and>
   convert_json_entrydict (bind '''' '''' (init ''http://ex.org/''))
       [(''type'', ''uri''), (''value'', '':Foo'')]
     = Inl (KeyError '''')"
  by (simp add: convert_json_entrydict_def bind_def init_def DEFAULT_NAMESPACES_def startswith_def)

subsection \<open>Failures of the service\<close>

text \<open>
  C5: when the call to the service raises an exception, when the response has status 400,
  or when reading the body of the response raises an exception, \<^verbatim>\<open>query\<close> returns
  \<^verbatim>\<open>None\<close> and raises nothing.
\<close>

theorem query_failure_returns_None:
  assumes "(\<exists>e. kb_query (format_query ns query_object) = Inl e) \<or>
           (\<exists>response. kb_query (format_query ns query_object) = Inr response \<and>
              (status_code response = 400 \<or> (\<exists>e. json response = Inl e)))"
  shows "query kb_query ns query_object = Inr None"
  using assms by (auto simp: query_def)

theorem query_failure_returns_None_witness:
  "query (\<lambda>q. Inl (OtherException ''connection refused'')) (init ''http://ex.org/'')
       ''SELECT * WHERE {?s ?p ?o}'' = Inr None \<and>
   query (\<lambda>q. Inr \<lparr>status_code = 400, response_text = ''Bad Request'',
                    json = Inr \<lparr>head = Some \<lparr>vars = Some []\<rparr>,
                                 results = Some \<lparr>bindings = Some []\<rparr>\<rparr>\<rparr>)
       (init ''http://ex.org/'') ''SELECT * WHERE {?s ?p ?o}'' = Inr None \<and>
   query (\<lambda>q. Inr \<lparr>status_code = 200, response_text = ''<html>'',
                    json = Inl (OtherException ''JSONDecodeError'')\<rparr>)
       (init ''http://ex.org/'') ''SELECT * WHERE {?s ?p ?o}'' = Inr None"
proof -
  have a: "query (\<lambda>q. Inl (OtherException ''connection refused'')) (init ''http://ex.org/'')
       ''SELECT * WHERE {?s ?p ?o}'' = Inr None"
    by (rule query_failure_returns_None) simp
  have b: "query (\<lambda>q. Inr \<lparr>status_code = 400, response_text = ''Bad Request'',
                    json = Inr \<lparr>head = Some \<lparr>vars = Some []\<rparr>,
                                 results = Some \<lparr>bindings = Some []\<rparr>\<rparr>\<rparr>)
       (init ''http://ex.org/'') ''SELECT * WHERE {?s ?p ?o}'' = Inr None"
    by (rule query_failure_returns_None) simp
  have c: "query (\<lambda>q. Inr \<lparr>status_code = 200, response_text = ''<html>'',
                    json = Inl (OtherException ''JSONDecodeError'')\<rparr>)
       (init ''http://ex.org/'') ''SELECT * WHERE {?s ?p ?o}'' = Inr None"
    by (rule query_failure_returns_None) simp
  from a b c show ?thesis by blast
qed

text \<open>
  C10: when the service answers with status 400, \<^verbatim>\<open>serialize\<close> returns \<^verbatim>\<open>None\<close>, not
  the text of the response and not the empty string, whatever the destination is, and it
  writes nothing.
\<close>

theorem serialize_bad_request:
  assumes "kb_query (serialize_query ns) = Inr response"
    and "status_code response = 400"
  shows "serialize kb_query io_error ns destination = (Inr None, [])"
  using assms by (simp add: serialize_def)

theorem serialize_bad_request_witness:
  "serialize (\<lambda>q. Inr \<lparr>status_code = 400, response_text = ''Bad Request'',
                        json = Inl (OtherException ''no body'')\<rparr>)
       (\<lambda>d. None) (init ''http://ex.org/'') (FileName ''out.ttl'') = (Inr None, []) \<and>
   serialize (\<lambda>q. Inr \<lparr>status_code = 400, response_text = ''Bad Request'',
                        json = Inl (OtherException ''no body'')\<rparr>)
       (\<lambda>d. None) (init ''http://ex.org/'') (FileName '''') = (Inr None, []) \<and>
   serialize (\<lambda>q. Inr \<lparr>status_code = 400, response_text = ''Bad Request'',
                        json = Inl (OtherException ''no body'')\<rparr>)
       (\<lambda>d. None) (init ''http://ex.org/'') (FileObject 3) = (Inr None, [])"
proof -
  let ?r = "\<lparr>status_code = 400, response_text = ''Bad Request'',
             json = Inl (OtherException ''no body'')\<rparr>"
  have a: "serialize (\<lambda>q. Inr ?r) (\<lambda>d. None) (init ''http://ex.org/'') (FileName ''out.ttl'')
             = (Inr None, [])"
    by (rule serialize_bad_request [where response = ?r]) simp_all
  have b: "serialize (\<lambda>q. Inr ?r) (\<lambda>d. None) (init ''http://ex.org/'') (FileName '''')
             = (Inr None, [])"
    by (rule serialize_bad_request [where response = ?r]) simp_all
  have c: "serialize (\<lambda>q. Inr ?r) (\<lambda>d. None) (init ''http://ex.org/'') (FileObject 3)
             = (Inr None, [])"
    by (rule serialize_bad_request [where response = ?r]) simp_all
  from a b c show ?thesis by blast
qed

text \<open>
  With any other status the destination decides: the text is returned when the
  destination is empty, and written, with the empty string returned, otherwise.
\<close>

lemma serialize_other_status:
  "kb_query (serialize_query ns) = Inr response \<Longrightarrow> status_code response \<noteq> 400 \<Longrightarrow>
     serialize kb_query io_error ns (FileName '''') = (Inr (Some (response_text response)), []) \<and>
     (io_error (FileName (c # name)) = None \<longrightarrow>
        serialize kb_query io_error ns (FileName (c # name)) =
          (Inr (Some ''''), [(FileName (c # name), response_text response)]))"
  by (simp add: serialize_def)

end
